theory Spec2Isabelle
  imports Complex_Main "HOL-Library.Word"
begin

unbundle bit_operations_syntax

section \<open>The board: pins, the serial bus and the log of register accesses\<close>

text \<open>
  The driver of \<^verbatim>\<open>ADIS16000.cpp\<close> acts on the outside world only through the Arduino
  calls \<^verbatim>\<open>digitalWrite\<close>, \<^verbatim>\<open>pinMode\<close>, \<^verbatim>\<open>SPI.transfer\<close>, \<^verbatim>\<open>delay\<close>,
  \<^verbatim>\<open>delayMicroseconds\<close> and the \<^verbatim>\<open>SPI\<close> configuration calls. Each of them is an
  event; the board records the events in the order the code issues them, together with
  the level every pin was last driven to.
\<close>

datatype level = LOW | HIGH

datatype event =
    PinModeOutput int
  | DigitalWrite int level
  | Transfer "8 word" "8 word"
  | Delay nat
  | DelayMicroseconds nat
  | SPI_begin
  | SPI_end
  | SPI_setBitOrder_MSBFIRST
  | SPI_setClockDivider_DIV8
  | SPI_setDataMode_MODE3

text \<open>
  \<open>Transfer out inp\<close> is one call of \<^verbatim>\<open>SPI.transfer(out)\<close> that returned \<open>inp\<close>.
  \<open>Delay\<close> counts milliseconds, \<open>DelayMicroseconds\<close> microseconds.

  \<open>accesses\<close> is a ghost log with one entry per call of \<^verbatim>\<open>regWrite\<close> and
  \<^verbatim>\<open>regRead\<close> and the arguments of the call (what the \<^verbatim>\<open>DEBUG\<close> build prints to
  the serial console); no function reads it.
\<close>

datatype access = RegWrite "8 word" "16 word" | RegRead "8 word"

record board =
  pins :: "int \<Rightarrow> level"
  bus :: "event list"
  accesses :: "access list"

text \<open>
  The device on the other end of the bus: the byte it shifts out during a transfer is a
  function of everything that happened on the board before and of the byte shifted in.
\<close>

type_synonym device = "event list \<Rightarrow> 8 word \<Rightarrow> 8 word"

definition emit :: "event \<Rightarrow> board \<Rightarrow> board" where
  "emit e s = s\<lparr>bus := bus s @ [e]\<rparr>"

definition pinMode :: "int \<Rightarrow> board \<Rightarrow> board" where
  "pinMode pin s = emit (PinModeOutput pin) s"

definition digitalWrite :: "int \<Rightarrow> level \<Rightarrow> board \<Rightarrow> board" where
  "digitalWrite pin v s = emit (DigitalWrite pin v) (s\<lparr>pins := (pins s)(pin := v)\<rparr>)"

definition SPI_transfer :: "device \<Rightarrow> 8 word \<Rightarrow> board \<Rightarrow> 8 word \<times> board" where
  "SPI_transfer dev out s = (let inp = dev (bus s) out in (inp, emit (Transfer out inp) s))"

definition delay :: "nat \<Rightarrow> board \<Rightarrow> board" where
  "delay ms s = emit (Delay ms) s"

definition delayMicroseconds :: "nat \<Rightarrow> board \<Rightarrow> board" where
  "delayMicroseconds us s = emit (DelayMicroseconds us) s"

definition log_access :: "access \<Rightarrow> board \<Rightarrow> board" where
  "log_access a s = s\<lparr>accesses := accesses s @ [a]\<rparr>"

section \<open>The driver object\<close>

text \<open>The two private members \<^verbatim>\<open>_CS\<close> and \<^verbatim>\<open>_RST\<close> of the class.\<close>

record ADIS16000 =
  CS :: int
  RST :: int

text \<open>
  The register addresses are macros of the header \<^verbatim>\<open>ADIS16000\<close>, which the file includes
  and which is not part of the sources; the functions below take them as a parameter.
\<close>

record regmap =
  GLOB_CMD_G :: "8 word"
  GLOB_CMD_S :: "8 word"
  CMD_DATA :: "8 word"
  PAGE_ID :: "8 word"
  BUF_PNTR :: "8 word"
  X_BUF :: "8 word"
  Y_BUF :: "8 word"
  GPO_CTRL :: "8 word"
  UPDAT_INT :: "8 word"
  INT_SCL :: "8 word"

definition configSPI :: "board \<Rightarrow> int \<times> board" where
  "configSPI s0 =
     (let s1 = emit SPI_setBitOrder_MSBFIRST s0;
          s2 = emit SPI_setClockDivider_DIV8 s1;
          s3 = emit SPI_setDataMode_MODE3 s2
      in (1, s3))"

definition ADIS16000_new :: "int \<Rightarrow> int \<Rightarrow> board \<Rightarrow> ADIS16000 \<times> board" where
  "ADIS16000_new cs rst s0 =
     (let this = \<lparr>CS = cs, RST = rst\<rparr>;
          s1 = emit SPI_begin s0;
          s2 = snd (configSPI s1);
          s3 = pinMode (CS this) s2;
          s4 = pinMode (RST this) s3;
          s5 = digitalWrite (CS this) HIGH s4;
          s6 = digitalWrite (RST this) HIGH s5
      in (this, s6))"

definition ADIS16000_delete :: "board \<Rightarrow> board" where
  "ADIS16000_delete s = emit SPI_end s"

definition resetDUT :: "ADIS16000 \<Rightarrow> 8 word \<Rightarrow> board \<Rightarrow> int \<times> board" where
  "resetDUT this ms s0 =
     (let s1 = digitalWrite (RST this) LOW s0;
          s2 = delay 100 s1;
          s3 = digitalWrite (RST this) HIGH s2;
          s4 = delay (unat ms) s3
      in (1, s4))"

text \<open>
  \<^verbatim>\<open>regRead\<close>: the two received bytes are widened to 16 bits, the first shifted left by
  eight and the second masked with \<^verbatim>\<open>0xFF\<close>; the result is the bit pattern of the
  \<^verbatim>\<open>int16_t\<close> returned (\<open>sint\<close> reads its signed value).
\<close>

definition regRead :: "device \<Rightarrow> ADIS16000 \<Rightarrow> 8 word \<Rightarrow> board \<Rightarrow> 16 word \<times> board" where
  "regRead dev this regAddr s0 =
     (let s1 = digitalWrite (CS this) LOW s0;
          (_, s2) = SPI_transfer dev regAddr s1;
          (_, s3) = SPI_transfer dev 0x00 s2;
          s4 = digitalWrite (CS this) HIGH s3;
          s5 = delayMicroseconds 15 s4;
          s6 = digitalWrite (CS this) LOW s5;
          (msbData, s7) = SPI_transfer dev 0x00 s6;
          (lsbData, s8) = SPI_transfer dev 0x00 s7;
          s9 = digitalWrite (CS this) HIGH s8;
          s10 = delayMicroseconds 15 s9;
          dataOut = push_bit 8 (ucast msbData) OR (ucast lsbData AND 0xFF);
          s11 = log_access (RegRead regAddr) s10
      in (dataOut, s11))"

text \<open>
  \<^verbatim>\<open>regWrite\<close>: \<^verbatim>\<open>addr\<close>, \<^verbatim>\<open>lowWord\<close> and \<^verbatim>\<open>highWord\<close> are \<^verbatim>\<open>uint16_t\<close>; each of
  the two transfers sends its word cast to \<^verbatim>\<open>uint8_t\<close>, which keeps the low eight bits.
\<close>

definition regWrite :: "device \<Rightarrow> ADIS16000 \<Rightarrow> 8 word \<Rightarrow> 16 word \<Rightarrow> board \<Rightarrow> int \<times> board" where
  "regWrite dev this regAddr regData s0 =
     (let addr = push_bit 8 ((ucast regAddr AND 0x7F) OR 0x80) :: 16 word;
          lowWord = addr OR (regData AND 0xFF);
          highWord = (addr OR 0x100) OR (drop_bit 8 regData AND 0xFF);
          s1 = digitalWrite (CS this) LOW s0;
          (_, s2) = SPI_transfer dev (ucast lowWord) s1;
          (_, s3) = SPI_transfer dev (ucast highWord) s2;
          s4 = digitalWrite (CS this) HIGH s3;
          s5 = delayMicroseconds 25 s4;
          s6 = log_access (RegWrite regAddr regData) s5
      in (1, s6))"

section \<open>Device control operations\<close>

text \<open>
  \<^verbatim>\<open>addSensor\<close> is written in the file without the class prefix; it calls
  \<^verbatim>\<open>regWrite\<close> like the member functions around it and is modelled as one of them.
\<close>

definition addSensor :: "device \<Rightarrow> ADIS16000 \<Rightarrow> regmap \<Rightarrow> 8 word \<Rightarrow> board \<Rightarrow> int \<times> board" where
  "addSensor dev this R sensorAddr s0 =
     (let (_, s1) = regWrite dev this (GLOB_CMD_G R) 0x01 s0;
          s2 = delayMicroseconds 500 s1;
          (_, s3) = regWrite dev this (CMD_DATA R) (ucast sensorAddr) s2
      in (1, s3))"

definition removeSensor :: "device \<Rightarrow> ADIS16000 \<Rightarrow> regmap \<Rightarrow> 8 word \<Rightarrow> board \<Rightarrow> int \<times> board" where
  "removeSensor dev this R sensorAddr s0 =
     (let (_, s1) = regWrite dev this (CMD_DATA R) (ucast sensorAddr) s0;
          (_, s2) = regWrite dev this (GLOB_CMD_G R) 0x100 s1
      in (1, s2))"

definition saveGatewaySettings :: "device \<Rightarrow> ADIS16000 \<Rightarrow> regmap \<Rightarrow> board \<Rightarrow> int \<times> board" where
  "saveGatewaySettings dev this R s0 =
     (let (_, s1) = regWrite dev this (PAGE_ID R) 0x00 s0;
          (_, s2) = regWrite dev this (GLOB_CMD_G R) 0x40 s1
      in (1, s2))"

definition saveSensorSettings :: "device \<Rightarrow> ADIS16000 \<Rightarrow> regmap \<Rightarrow> 8 word \<Rightarrow> board \<Rightarrow> int \<times> board" where
  "saveSensorSettings dev this R sensorAddr s0 =
     (let (_, s1) = regWrite dev this (PAGE_ID R) (ucast sensorAddr) s0;
          (_, s2) = regWrite dev this (GLOB_CMD_S R) 0x40 s1;
          (_, s3) = regWrite dev this (PAGE_ID R) 0x00 s2;
          (_, s4) = regWrite dev this (GLOB_CMD_G R) 0x02 s3
      in (1, s4))"

definition setPeriodicMode ::
  "device \<Rightarrow> ADIS16000 \<Rightarrow> regmap \<Rightarrow> 16 word \<Rightarrow> 8 word \<Rightarrow> 8 word \<Rightarrow> board \<Rightarrow> int \<times> board" where
  "setPeriodicMode dev this R interval scalefactor sensorAddr s0 =
     (let (_, s1) = regWrite dev this (PAGE_ID R) (ucast sensorAddr) s0;
          (_, s2) = regWrite dev this (UPDAT_INT R) interval s1;
          (_, s3) = regWrite dev this (INT_SCL R) (ucast scalefactor) s2;
          (_, s4) = regWrite dev this (GLOB_CMD_S R) 0x800 s3
      in (1, s4))"

text \<open>
  What C++ leaves undefined is a fault of the model: a store outside an array, and the
  end of a function that returns a value reached without a \<^verbatim>\<open>return\<close>.
\<close>

datatype fault = OutOfBounds | MissingReturn

text \<open>
  \<^verbatim>\<open>setDataReady\<close>. Line 203 reads \<^verbatim>\<open>regWrite(GPO,CTRL, 0x20)\<close>; it is taken as the
  write to \<^verbatim>\<open>GPO_CTRL\<close> that line 198 spells out. The last condition is
  \<^verbatim>\<open>dio != 1 || 2\<close>, whose right operand is the constant 2, which counts as true.
\<close>

definition setDataReady ::
  "device \<Rightarrow> ADIS16000 \<Rightarrow> regmap \<Rightarrow> 8 word \<Rightarrow> board \<Rightarrow> (fault + int) \<times> board" where
  "setDataReady dev this R dio s0 =
     (let (_, s1) = regWrite dev this (PAGE_ID R) 0x00 s0
      in if dio = 1 then
           (let (_, s2) = regWrite dev this (GPO_CTRL R) 0x08 s1 in (Inr (uint dio), s2))
         else if dio = 2 then
           (let (_, s2) = regWrite dev this (GPO_CTRL R) 0x20 s1 in (Inr (uint dio), s2))
         else if dio \<noteq> 1 \<or> (2 :: int) \<noteq> 0 then (Inr 0, s1)
         else (Inl MissingReturn, s1))"

section \<open>Buffer retrieval\<close>

text \<open>
  A local array of \<^verbatim>\<open>int16_t\<close>: a cell is \<open>None\<close> until it is assigned. A store
  checks the index against the length of the array.
\<close>

type_synonym buffer = "16 word option list"

definition store :: "buffer \<Rightarrow> nat \<Rightarrow> 16 word \<Rightarrow> fault + buffer" where
  "store buffer i v = (if i < length buffer then Inr (buffer[i := Some v]) else Inl OutOfBounds)"

text \<open>
  \<^verbatim>\<open>readFFT\<close>. The right-hand side of each assignment (the register read) runs before
  the store. The function returns the address of its local array; the model returns the
  contents of the array.
\<close>

definition readFFT ::
  "device \<Rightarrow> ADIS16000 \<Rightarrow> regmap \<Rightarrow> 8 word \<Rightarrow> 8 word \<Rightarrow> board \<Rightarrow> (fault + buffer) \<times> board" where
  "readFFT dev this R sample sensorAddr s0 =
     (let buffer = replicate 2 None;
          (_, s1) = regWrite dev this (PAGE_ID R) (ucast sensorAddr) s0;
          (_, s2) = regWrite dev this (BUF_PNTR R) (ucast sample) s1;
          (x, s3) = regRead dev this (X_BUF R) s2
      in case store buffer 1 x of
           Inl e \<Rightarrow> (Inl e, s3)
         | Inr buffer1 \<Rightarrow>
             (let (y, s4) = regRead dev this (Y_BUF R) s3
              in case store buffer1 2 y of
                   Inl e \<Rightarrow> (Inl e, s4)
                 | Inr buffer2 \<Rightarrow> (Inr buffer2, s4)))"

text \<open>
  \<^verbatim>\<open>readFFTBuffer\<close>. The loop header of line 179 is \<^verbatim>\<open>for (int i = 0; i < 511, i++)\<close>;
  it is read with the comma as the semicolon that is missing, that is with the condition
  \<^verbatim>\<open>i < 511\<close> and the step \<^verbatim>\<open>i++\<close>. The body assigns to \<^verbatim>\<open>bufferx[i]\<close> and
  \<^verbatim>\<open>buffery[i + 256]\<close>, two names the file does not declare; both are read as the one
  array the function declares and returns, \<^verbatim>\<open>buffer\<close>.
\<close>

function readFFTBuffer_loop ::
  "device \<Rightarrow> ADIS16000 \<Rightarrow> regmap \<Rightarrow> nat \<Rightarrow> buffer \<Rightarrow> board \<Rightarrow> (fault + buffer) \<times> board" where
  "readFFTBuffer_loop dev this R i buffer s0 =
     (if i < 511 then
        (case regRead dev this (X_BUF R) s0 of (x, s1) \<Rightarrow>
           (case store buffer i x of
              Inl e \<Rightarrow> (Inl e, s1)
            | Inr buffer1 \<Rightarrow>
                (case regRead dev this (Y_BUF R) s1 of (y, s2) \<Rightarrow>
                   (case store buffer1 (i + 256) y of
                      Inl e \<Rightarrow> (Inl e, s2)
                    | Inr buffer2 \<Rightarrow> readFFTBuffer_loop dev this R (i + 1) buffer2 s2))))
      else (Inr buffer, s0))"
  by pat_completeness auto
termination
  by (relation "measure (\<lambda>(dev, this, R, i, buffer, s0). 511 - i)") auto

definition readFFTBuffer ::
  "device \<Rightarrow> ADIS16000 \<Rightarrow> regmap \<Rightarrow> 8 word \<Rightarrow> board \<Rightarrow> (fault + buffer) \<times> board" where
  "readFFTBuffer dev this R sensorAddr s0 =
     (let buffer = replicate 512 None;
          (_, s1) = regWrite dev this (PAGE_ID R) (ucast sensorAddr) s0;
          (_, s2) = regWrite dev this (BUF_PNTR R) 0x00 s1;
          (_, s3) = regWrite dev this (GLOB_CMD_S R) 0x800 s2;
          (_, s4) = regWrite dev this (GLOB_CMD_G R) 0x2 s3
      in readFFTBuffer_loop dev this R 0 buffer s4)"

section \<open>Scaling functions\<close>

text \<open>
  The library is written for the 8-bit AVR boards, where \<^verbatim>\<open>int\<close> has 16 bits. There
  the literals \<^verbatim>\<open>0x8000\<close> and \<^verbatim>\<open>0xFFFF\<close> do not fit \<^verbatim>\<open>int\<close> and are
  \<^verbatim>\<open>unsigned int\<close>, so the mask, the comparison and the subtraction are computed
  modulo \<open>2 ^ 16\<close>; the difference is stored in the \<^verbatim>\<open>int\<close> variable
  \<^verbatim>\<open>signedData\<close>, whose signed value \<open>sint\<close> reads.
\<close>

definition signedData :: "16 word \<Rightarrow> 16 word" where
  "signedData sensorData =
     (let isNeg = sensorData AND 0x8000
      in if isNeg = 0x8000 then sensorData - 0xFFFF else sensorData)"

text \<open>
  \<^verbatim>\<open>lsbrange\<close> is declared \<^verbatim>\<open>int\<close>. Assigning a floating-point constant to it
  converts the constant to \<^verbatim>\<open>int\<close>, which drops the fraction.
\<close>

definition int_of_double :: "rat \<Rightarrow> 16 word" where
  "int_of_double q = word_of_int (if 0 \<le> q then \<lfloor>q\<rfloor> else \<lceil>q\<rceil>)"

text \<open>
  The product \<^verbatim>\<open>signedData * lsbrange\<close> is a product of two \<^verbatim>\<open>int\<close>s; the
  \<^verbatim>\<open>float\<close> returned is that integer, which a \<^verbatim>\<open>float\<close> represents exactly.
\<close>

definition scaleTime :: "16 word \<Rightarrow> 16 word \<Rightarrow> rat" where
  "scaleTime sensorData gRange =
     (let lsbrange =
            (if gRange = 1 then int_of_double (305 / 10000)
             else if gRange = 5 then int_of_double (1526 / 10000)
             else if gRange = 10 then int_of_double (3052 / 10000)
             else if gRange = 20 then int_of_double (6104 / 10000)
             else int_of_double (305 / 10000));
          finalData = signedData sensorData * lsbrange
      in of_int (sint finalData))"

definition scaleFFT :: "16 word \<Rightarrow> 16 word \<Rightarrow> rat" where
  "scaleFFT sensorData gRange =
     (let lsbrange =
            (if gRange = 1 then int_of_double (153 / 10000)
             else if gRange = 5 then int_of_double (763 / 10000)
             else if gRange = 10 then int_of_double (1526 / 10000)
             else if gRange = 20 then int_of_double (3052 / 10000)
             else int_of_double (153 / 10000));
          finalData = signedData sensorData * lsbrange
      in of_int (sint finalData))"

section \<open>Sequences of operations and the chip-select discipline\<close>

text \<open>The public operations of the driver that act on the board, as values.\<close>

datatype operation =
    Op_resetDUT "8 word"
  | Op_configSPI
  | Op_regRead "8 word"
  | Op_regWrite "8 word" "16 word"
  | Op_addSensor "8 word"
  | Op_removeSensor "8 word"
  | Op_saveGatewaySettings
  | Op_saveSensorSettings "8 word"
  | Op_readFFTBuffer "8 word"
  | Op_readFFT "8 word" "8 word"
  | Op_setDataReady "8 word"
  | Op_setPeriodicMode "16 word" "8 word" "8 word"

definition fault_of :: "fault + 'a \<Rightarrow> fault option" where
  "fault_of r = (case r of Inl e \<Rightarrow> Some e | Inr _ \<Rightarrow> None)"

fun exec :: "device \<Rightarrow> ADIS16000 \<Rightarrow> regmap \<Rightarrow> operation \<Rightarrow> board \<Rightarrow> fault option \<times> board" where
  "exec dev this R (Op_resetDUT ms) s = (None, snd (resetDUT this ms s))"
| "exec dev this R Op_configSPI s = (None, snd (configSPI s))"
| "exec dev this R (Op_regRead regAddr) s = (None, snd (regRead dev this regAddr s))"
| "exec dev this R (Op_regWrite regAddr regData) s = (None, snd (regWrite dev this regAddr regData s))"
| "exec dev this R (Op_addSensor a) s = (None, snd (addSensor dev this R a s))"
| "exec dev this R (Op_removeSensor a) s = (None, snd (removeSensor dev this R a s))"
| "exec dev this R Op_saveGatewaySettings s = (None, snd (saveGatewaySettings dev this R s))"
| "exec dev this R (Op_saveSensorSettings a) s = (None, snd (saveSensorSettings dev this R a s))"
| "exec dev this R (Op_readFFTBuffer a) s =
     (case readFFTBuffer dev this R a s of (r, s') \<Rightarrow> (fault_of r, s'))"
| "exec dev this R (Op_readFFT n a) s =
     (case readFFT dev this R n a s of (r, s') \<Rightarrow> (fault_of r, s'))"
| "exec dev this R (Op_setDataReady dio) s =
     (case setDataReady dev this R dio s of (r, s') \<Rightarrow> (fault_of r, s'))"
| "exec dev this R (Op_setPeriodicMode i f a) s = (None, snd (setPeriodicMode dev this R i f a s))"

text \<open>
  A caller's sequence of operations. It ends at the first fault, with the board as it is
  at that moment.
\<close>

fun run :: "device \<Rightarrow> ADIS16000 \<Rightarrow> regmap \<Rightarrow> operation list \<Rightarrow> board \<Rightarrow> fault option \<times> board" where
  "run dev this R [] s = (None, s)"
| "run dev this R (op # ops) s =
     (case exec dev this R op s of
        (Some e, s') \<Rightarrow> (Some e, s')
      | (None, s') \<Rightarrow> run dev this R ops s')"

text \<open>The board before the constructor runs: nothing has happened on it.\<close>

definition power_on :: "(int \<Rightarrow> level) \<Rightarrow> board" where
  "power_on p = \<lparr>pins = p, bus = [], accesses = []\<rparr>"

text \<open>
  The chip-select discipline, read off the events in order. The line is \<open>Idle\<close> or it is
  \<open>Selected k\<close>, after \<open>k\<close> bytes of the transaction in progress. A transaction is one
  16-bit frame: chip-select low, two byte transfers, chip-select high. Anything else
  while the line is low, and a transfer while it is idle, is a violation.
\<close>

datatype cs_phase = Idle | Selected nat | Violated

fun cs_step :: "int \<Rightarrow> cs_phase \<Rightarrow> event \<Rightarrow> cs_phase" where
  "cs_step cs Violated e = Violated"
| "cs_step cs Idle (DigitalWrite p v) = (if p = cs \<and> v = LOW then Selected 0 else Idle)"
| "cs_step cs Idle (Transfer out inp) = Violated"
| "cs_step cs Idle e = Idle"
| "cs_step cs (Selected k) (Transfer out inp) = (if k < 2 then Selected (k + 1) else Violated)"
| "cs_step cs (Selected k) (DigitalWrite p v) =
     (if p = cs \<and> v = HIGH \<and> k = 2 then Idle else Violated)"
| "cs_step cs (Selected k) e = Violated"

definition cs_phase_after :: "int \<Rightarrow> event list \<Rightarrow> cs_phase" where
  "cs_phase_after cs es = foldl (cs_step cs) Idle es"

text \<open>
  Between operations: the pin is high and, where chip-select has a pin of its own (it is
  not also the reset pin), no transaction is in progress and none was violated.
\<close>

definition cs_idle :: "bool \<Rightarrow> int \<Rightarrow> board \<Rightarrow> bool" where
  "cs_idle own cs s = (pins s cs = HIGH \<and> (own \<longrightarrow> cs_phase_after cs (bus s) = Idle))"

section \<open>A simulated device with a register file\<close>

text \<open>
  Modelled from the spec: the simulated bus that echoes writes into a register file, which
  the round-trip property presupposes and the repository does not contain. It follows the
  frame layout the specification gives. A register write is one chip-select pulse of four
  bytes: the low word, low byte (data) then high byte (address with the write flag
  \<^verbatim>\<open>0x80\<close>), then the high word the same way, for the next address and the upper data byte.
  A read request is a pulse of two bytes, an address without the write flag and a fill
  byte; it selects the register that the next pulse shifts out, most significant byte first.
  The register file holds one byte per address.
\<close>

record mock =
  regfile :: "8 word \<Rightarrow> 8 word"
  frame :: "8 word list"
  pointer :: "8 word"

definition mock_commit :: "mock \<Rightarrow> mock" where
  "mock_commit m =
     (case frame m of
        [d0, a0, d1, a1] \<Rightarrow>
          (if bit a0 7 \<and> bit a1 7
           then m\<lparr>regfile := (regfile m)(a0 AND 0x7F := d0, a1 AND 0x7F := d1), frame := []\<rparr>
           else m\<lparr>frame := []\<rparr>)
      | [a, fill] \<Rightarrow> (if bit a 7 then m\<lparr>frame := []\<rparr> else m\<lparr>pointer := a, frame := []\<rparr>)
      | _ \<Rightarrow> m\<lparr>frame := []\<rparr>)"

fun mock_step :: "int \<Rightarrow> mock \<Rightarrow> event \<Rightarrow> mock" where
  "mock_step cs m (DigitalWrite p v) =
     (if p = cs then (if v = LOW then m\<lparr>frame := []\<rparr> else mock_commit m) else m)"
| "mock_step cs m (Transfer out inp) = m\<lparr>frame := frame m @ [out]\<rparr>"
| "mock_step cs m e = m"

definition mock_reply :: "mock \<Rightarrow> 8 word" where
  "mock_reply m =
     (if length (frame m) = 0 then regfile m (pointer m + 1)
      else if length (frame m) = 1 then regfile m (pointer m)
      else 0)"

definition mock_device :: "int \<Rightarrow> mock \<Rightarrow> device" where
  "mock_device cs m0 history out = mock_reply (foldl (mock_step cs) m0 history)"

definition mock_zero :: mock where
  "mock_zero = \<lparr>regfile = (\<lambda>a. 0), frame = [], pointer = 0\<rparr>"

text \<open>
  The register write as the specification words it, for comparison with \<open>regWrite\<close>:
  both words are sent whole, each low byte first, four bytes within one chip-select pulse.
\<close>

definition regWrite_spec :: "device \<Rightarrow> ADIS16000 \<Rightarrow> 8 word \<Rightarrow> 16 word \<Rightarrow> board \<Rightarrow> int \<times> board" where
  "regWrite_spec dev this regAddr regData s0 =
     (let lowWord = push_bit 8 (ucast regAddr OR 0x80) OR (regData AND 0xFF) :: 16 word;
          highWord = push_bit 8 (ucast (regAddr + 1) OR 0x80) OR (drop_bit 8 regData AND 0xFF);
          s1 = digitalWrite (CS this) LOW s0;
          (_, s2) = SPI_transfer dev (ucast lowWord) s1;
          (_, s3) = SPI_transfer dev (ucast (drop_bit 8 lowWord)) s2;
          (_, s4) = SPI_transfer dev (ucast highWord) s3;
          (_, s5) = SPI_transfer dev (ucast (drop_bit 8 highWord)) s4;
          s6 = digitalWrite (CS this) HIGH s5;
          s7 = delayMicroseconds 25 s6;
          s8 = log_access (RegWrite regAddr regData) s7
      in (1, s8))"

text \<open>Which entries of the access log are register writes.\<close>

fun is_write :: "access \<Rightarrow> bool" where
  "is_write (RegWrite a d) = True"
| "is_write (RegRead a) = False"

section \<open>Sample inputs\<close>

text \<open>
  A driver on pins 10 and 9, a table of register addresses, and a device that answers
  every transfer with the byte \<^verbatim>\<open>0xA5\<close>, to run the model on.
\<close>

definition sample_driver :: ADIS16000 where
  "sample_driver = \<lparr>CS = 10, RST = 9\<rparr>"

definition sample_regmap :: regmap where
  "sample_regmap =
     \<lparr>GLOB_CMD_G = 0x02, GLOB_CMD_S = 0x04, CMD_DATA = 0x06, PAGE_ID = 0x00, BUF_PNTR = 0x08,
      X_BUF = 0x0A, Y_BUF = 0x0C, GPO_CTRL = 0x0E, UPDAT_INT = 0x10, INT_SCL = 0x12\<rparr>"

definition sample_device :: device where
  "sample_device history out = 0xA5"

section \<open>Basic facts\<close>

lemma bus_emit [simp]: "bus (emit e s) = bus s @ [e]"
  by (simp add: emit_def)

lemma pins_emit [simp]: "pins (emit e s) = pins s"
  by (simp add: emit_def)

lemma accesses_emit [simp]: "accesses (emit e s) = accesses s"
  by (simp add: emit_def)

lemma bus_digitalWrite [simp]: "bus (digitalWrite p v s) = bus s @ [DigitalWrite p v]"
  by (simp add: digitalWrite_def)

lemma pins_digitalWrite [simp]: "pins (digitalWrite p v s) = (pins s)(p := v)"
  by (simp add: digitalWrite_def)

lemma accesses_digitalWrite [simp]: "accesses (digitalWrite p v s) = accesses s"
  by (simp add: digitalWrite_def)

lemma bus_log_access [simp]: "bus (log_access a s) = bus s"
  by (simp add: log_access_def)

lemma pins_log_access [simp]: "pins (log_access a s) = pins s"
  by (simp add: log_access_def)

lemma accesses_log_access [simp]: "accesses (log_access a s) = accesses s @ [a]"
  by (simp add: log_access_def)

declare readFFTBuffer_loop.simps [simp del]

subsection \<open>Bytes of the two words of a register write\<close>

lemma ucast_push8: "(ucast (push_bit 8 (x::16 word)) :: 8 word) = 0"
  by (rule bit_word_eqI) (simp add: bit_simps)

lemma ucast_or: "(ucast ((x::16 word) OR y) :: 8 word) = ucast x OR ucast y"
  by (rule bit_word_eqI) (auto simp add: bit_simps)

lemma ucast_and_mask8: "(ucast ((x::16 word) AND mask 8) :: 8 word) = ucast x"
  by (rule bit_word_eqI) (auto simp add: bit_simps)

lemma ucast_and_ff: "(ucast ((x::16 word) AND 0xFF) :: 8 word) = ucast x"
  using ucast_and_mask8 [of x] by (simp add: mask_eq_exp_minus_1)

lemma lowWord_byte:
  "(ucast (push_bit 8 ((ucast (a::8 word) AND 0x7F) OR 0x80) OR ((d::16 word) AND 0xFF)) :: 8 word) = ucast d"
  by (simp only: ucast_or ucast_push8 ucast_and_ff) simp

lemma highWord_byte:
  "(ucast ((push_bit 8 ((ucast (a::8 word) AND 0x7F) OR 0x80) OR 0x100) OR (drop_bit 8 (d::16 word) AND 0xFF)) :: 8 word)
     = ucast (drop_bit 8 d)"
proof -
  have "(ucast (0x100 :: 16 word) :: 8 word) = 0" by simp
  then show ?thesis by (simp only: ucast_or ucast_push8 ucast_and_ff) simp
qed

subsection \<open>regWrite and regRead, event by event\<close>

lemma regWrite_fst [simp]: "fst (regWrite dev this regAddr regData s) = 1"
  by (simp add: regWrite_def Let_def split_def)

lemma regWrite_shape:
  "\<exists>r1 r2.
     bus (snd (regWrite dev this regAddr regData s)) =
       bus s @ [DigitalWrite (CS this) LOW, Transfer (ucast regData) r1,
                Transfer (ucast (drop_bit 8 regData)) r2, DigitalWrite (CS this) HIGH,
                DelayMicroseconds 25]"
  unfolding regWrite_def SPI_transfer_def Let_def delayMicroseconds_def lowWord_byte highWord_byte
  by simp

lemma regWrite_pins [simp]:
  "pins (snd (regWrite dev this regAddr regData s)) = (pins s)(CS this := HIGH)"
  by (simp add: regWrite_def SPI_transfer_def Let_def delayMicroseconds_def split_def)

lemma regWrite_accesses [simp]:
  "accesses (snd (regWrite dev this regAddr regData s)) = accesses s @ [RegWrite regAddr regData]"
  by (simp add: regWrite_def SPI_transfer_def Let_def delayMicroseconds_def split_def)

lemma regRead_pins [simp]:
  "pins (snd (regRead dev this regAddr s)) = (pins s)(CS this := HIGH)"
  by (simp add: regRead_def SPI_transfer_def Let_def delayMicroseconds_def split_def)

lemma regRead_accesses [simp]:
  "accesses (snd (regRead dev this regAddr s)) = accesses s @ [RegRead regAddr]"
  by (simp add: regRead_def SPI_transfer_def Let_def delayMicroseconds_def split_def)

lemma regRead_shape:
  "\<exists>r1 r2 msb lsb.
     bus (snd (regRead dev this regAddr s)) =
       bus s @ [DigitalWrite (CS this) LOW, Transfer regAddr r1, Transfer 0 r2, DigitalWrite (CS this) HIGH,
                DelayMicroseconds 15,
                DigitalWrite (CS this) LOW, Transfer 0 msb, Transfer 0 lsb, DigitalWrite (CS this) HIGH,
                DelayMicroseconds 15] \<and>
     fst (regRead dev this regAddr s) = push_bit 8 (ucast msb) OR (ucast lsb AND 0xFF)"
  by (simp add: regRead_def SPI_transfer_def Let_def delayMicroseconds_def split_def)


subsection \<open>The chip-select discipline\<close>

lemma cs_phase_after_append:
  "cs_phase_after cs (es @ fs) = foldl (cs_step cs) (cs_phase_after cs es) fs"
  by (simp add: cs_phase_after_def)

lemma regWrite_idle:
  assumes "cs_idle own (CS this) s"
  shows "cs_idle own (CS this) (snd (regWrite dev this regAddr regData s))"
proof -
  obtain r1 r2 where
    "bus (snd (regWrite dev this regAddr regData s)) =
       bus s @ [DigitalWrite (CS this) LOW, Transfer (ucast regData) r1,
                Transfer (ucast (drop_bit 8 regData)) r2, DigitalWrite (CS this) HIGH,
                DelayMicroseconds 25]"
    using regWrite_shape by blast
  with assms show ?thesis
    by (simp add: cs_idle_def cs_phase_after_append)
qed

lemma regRead_idle:
  assumes "cs_idle own (CS this) s"
  shows "cs_idle own (CS this) (snd (regRead dev this regAddr s))"
proof -
  obtain r1 r2 msb lsb where
    "bus (snd (regRead dev this regAddr s)) =
       bus s @ [DigitalWrite (CS this) LOW, Transfer regAddr r1, Transfer 0 r2, DigitalWrite (CS this) HIGH,
                DelayMicroseconds 15,
                DigitalWrite (CS this) LOW, Transfer 0 msb, Transfer 0 lsb, DigitalWrite (CS this) HIGH,
                DelayMicroseconds 15]"
    using regRead_shape by blast
  with assms show ?thesis
    by (simp add: cs_idle_def cs_phase_after_append)
qed

lemma delayMicroseconds_idle:
  "cs_idle own cs s \<Longrightarrow> cs_idle own cs (delayMicroseconds us s)"
  by (simp add: cs_idle_def cs_phase_after_append delayMicroseconds_def)

lemma configSPI_idle: "cs_idle own cs s \<Longrightarrow> cs_idle own cs (snd (configSPI s))"
  by (simp add: cs_idle_def cs_phase_after_append configSPI_def Let_def)

lemma resetDUT_idle:
  "cs_idle (CS this \<noteq> RST this) (CS this) s \<Longrightarrow>
   cs_idle (CS this \<noteq> RST this) (CS this) (snd (resetDUT this ms s))"
  by (simp add: cs_idle_def cs_phase_after_append resetDUT_def delay_def Let_def)

lemma constructor_idle: "cs_idle own cs (snd (ADIS16000_new cs rst (power_on p)))"
  by (simp add: cs_idle_def cs_phase_after_def ADIS16000_new_def configSPI_def pinMode_def
      power_on_def Let_def)

lemma addSensor_idle:
  "cs_idle own (CS this) s \<Longrightarrow> cs_idle own (CS this) (snd (addSensor dev this R a s))"
  by (simp add: addSensor_def split_def Let_def regWrite_idle delayMicroseconds_idle)

lemma removeSensor_idle:
  "cs_idle own (CS this) s \<Longrightarrow> cs_idle own (CS this) (snd (removeSensor dev this R a s))"
  by (simp add: removeSensor_def split_def Let_def regWrite_idle)

lemma saveGatewaySettings_idle:
  "cs_idle own (CS this) s \<Longrightarrow> cs_idle own (CS this) (snd (saveGatewaySettings dev this R s))"
  by (simp add: saveGatewaySettings_def split_def Let_def regWrite_idle)

lemma saveSensorSettings_idle:
  "cs_idle own (CS this) s \<Longrightarrow> cs_idle own (CS this) (snd (saveSensorSettings dev this R a s))"
  by (simp add: saveSensorSettings_def split_def Let_def regWrite_idle)

lemma setPeriodicMode_idle:
  "cs_idle own (CS this) s \<Longrightarrow> cs_idle own (CS this) (snd (setPeriodicMode dev this R i f a s))"
  by (simp add: setPeriodicMode_def split_def Let_def regWrite_idle)

lemma setDataReady_idle:
  "cs_idle own (CS this) s \<Longrightarrow> cs_idle own (CS this) (snd (setDataReady dev this R dio s))"
  by (simp add: setDataReady_def split_def Let_def regWrite_idle)

lemma readFFT_idle:
  "cs_idle own (CS this) s \<Longrightarrow> cs_idle own (CS this) (snd (readFFT dev this R n a s))"
  by (simp add: readFFT_def split_def Let_def store_def regWrite_idle regRead_idle)

lemma readFFTBuffer_loop_idle:
  "cs_idle own (CS this) s \<Longrightarrow> cs_idle own (CS this) (snd (readFFTBuffer_loop dev this R i buffer s))"
proof (induction "511 - i" arbitrary: i buffer s)
  case 0
  then show ?case
    by (subst readFFTBuffer_loop.simps) simp
next
  case (Suc n)
  then have lt: "i < 511" and n: "n = 511 - Suc i" by simp_all
  have step: "cs_idle own (CS this) (snd (readFFTBuffer_loop dev this R (Suc i) b t))"
    if "cs_idle own (CS this) t" for b t
    using Suc.hyps(1) [OF n that] .
  from Suc.prems lt show ?case
    by (subst readFFTBuffer_loop.simps)
       (simp add: split_def store_def regRead_idle step)
qed

lemma readFFTBuffer_idle:
  "cs_idle own (CS this) s \<Longrightarrow> cs_idle own (CS this) (snd (readFFTBuffer dev this R a s))"
  by (simp add: readFFTBuffer_def split_def Let_def regWrite_idle readFFTBuffer_loop_idle)

lemma exec_idle:
  "cs_idle (CS this \<noteq> RST this) (CS this) s \<Longrightarrow>
   cs_idle (CS this \<noteq> RST this) (CS this) (snd (exec dev this R op s))"
  by (cases op)
     (simp_all add: split_def resetDUT_idle configSPI_idle regRead_idle regWrite_idle addSensor_idle
        removeSensor_idle saveGatewaySettings_idle saveSensorSettings_idle readFFTBuffer_idle
        readFFT_idle setDataReady_idle setPeriodicMode_idle)

lemma run_idle:
  "cs_idle (CS this \<noteq> RST this) (CS this) s \<Longrightarrow>
   cs_idle (CS this \<noteq> RST this) (CS this) (snd (run dev this R ops s))"
proof (induction ops arbitrary: s)
  case Nil
  then show ?case by simp
next
  case (Cons op ops)
  have e: "cs_idle (CS this \<noteq> RST this) (CS this) (snd (exec dev this R op s))"
    using Cons.prems by (rule exec_idle)
  show ?case
  proof (cases "exec dev this R op s")
    case (Pair r s')
    with e have s': "cs_idle (CS this \<noteq> RST this) (CS this) s'" by simp
    show ?thesis
    proof (cases r)
      case None
      with Pair Cons.IH [OF s'] show ?thesis by simp
    next
      case (Some f)
      with Pair s' show ?thesis by simp
    qed
  qed
qed

subsection \<open>The two bytes of a register read\<close>

lemma concat_high_mask:
  "(ucast (drop_bit 8 (push_bit 8 (ucast (msb :: 8 word)) OR (ucast (lsb :: 8 word) AND mask 8) :: 16 word)) :: 8 word) = msb"
  by (rule bit_word_eqI) (auto simp add: bit_simps)

lemma concat_high_byte:
  "(ucast (drop_bit 8 (push_bit 8 (ucast (msb :: 8 word)) OR (ucast (lsb :: 8 word) AND 0xFF) :: 16 word)) :: 8 word) = msb"
  using concat_high_mask [of msb lsb] by (simp add: mask_eq_exp_minus_1)

lemma ucast_ucast8: "(ucast (ucast (b :: 8 word) :: 16 word) :: 8 word) = b"
  by (rule bit_word_eqI) (auto simp add: bit_simps)

lemma concat_low_byte:
  "(ucast (push_bit 8 (ucast (msb :: 8 word)) OR (ucast (lsb :: 8 word) AND 0xFF) :: 16 word) :: 8 word) = lsb"
  by (simp only: ucast_or ucast_push8 ucast_and_ff ucast_ucast8) simp

section \<open>Register access\<close>

text \<open>
  Claim C1 says that a register write packs the address and the data into two 16-bit
  words and transmits both words, low byte then high byte each, four bytes within one
  chip-select pulse, and returns the success indicator. The function computes the two
  words, but each \<^verbatim>\<open>SPI.transfer\<close> sends its word cast to \<^verbatim>\<open>uint8_t\<close>: the pulse
  carries two bytes, the low and the high byte of the data, and no byte that holds the
  address. The function returns 1.
\<close>

theorem regWrite_transmits_two_bytes:
  "fst (regWrite dev this regAddr regData s) = 1 \<and>
   (\<exists>r1 r2.
      bus (snd (regWrite dev this regAddr regData s)) =
        bus s @ [DigitalWrite (CS this) LOW,
                 Transfer (ucast regData) r1,
                 Transfer (ucast (drop_bit 8 regData)) r2,
                 DigitalWrite (CS this) HIGH,
                 DelayMicroseconds 25])"
  using regWrite_shape [of dev this regAddr regData s] by simp

text \<open>
  The write of \<^verbatim>\<open>0x1234\<close> to register \<^verbatim>\<open>0x02\<close>, as the code sends it and as the
  specification words it.
\<close>

lemma regWrite_example:
  "bus (snd (regWrite sample_device sample_driver 0x02 0x1234 (power_on (\<lambda>p. HIGH)))) =
     [DigitalWrite 10 LOW, Transfer 0x34 0xA5, Transfer 0x12 0xA5, DigitalWrite 10 HIGH,
      DelayMicroseconds 25]"
  by (simp add: regWrite_def SPI_transfer_def Let_def delayMicroseconds_def sample_device_def
      sample_driver_def power_on_def)

lemma regWrite_spec_example:
  "bus (snd (regWrite_spec sample_device sample_driver 0x02 0x1234 (power_on (\<lambda>p. HIGH)))) =
     [DigitalWrite 10 LOW, Transfer 0x34 0xA5, Transfer 0x82 0xA5, Transfer 0x12 0xA5,
      Transfer 0x83 0xA5, DigitalWrite 10 HIGH, DelayMicroseconds 25]"
  by (simp add: regWrite_spec_def SPI_transfer_def Let_def delayMicroseconds_def sample_device_def
      sample_driver_def power_on_def)

text \<open>What a register write puts on the bus does not depend on the register it names.\<close>

lemma regWrite_bus_ignores_address:
  "bus (snd (regWrite dev this a regData s)) = bus (snd (regWrite dev this b regData s))"
  unfolding regWrite_def SPI_transfer_def Let_def delayMicroseconds_def lowWord_byte highWord_byte
  by simp

text \<open>
  Claim C2 says that writing a value to a register and reading the register back returns
  the value, on a simulated bus that echoes writes into a register file. On the simulated
  device of this theory, with every register zero, writing \<^verbatim>\<open>0x1234\<close> to register
  \<^verbatim>\<open>0x02\<close> and reading register \<^verbatim>\<open>0x02\<close> returns 0: the write pulse holds the two
  data bytes only, so the device has no address to store them under.
\<close>

theorem write_then_read_on_mock:
  "fst (regRead (mock_device 10 mock_zero) sample_driver 0x02
         (snd (regWrite (mock_device 10 mock_zero) sample_driver 0x02 0x1234 (power_on (\<lambda>p. HIGH)))))
     = 0"
  by (simp add: regRead_def regWrite_def SPI_transfer_def Let_def delayMicroseconds_def
      sample_driver_def power_on_def mock_device_def mock_zero_def mock_reply_def mock_commit_def)

text \<open>
  The same device does echo a write that arrives in the four-byte frame of the
  specification: the read then returns the value written.
\<close>

lemma spec_write_then_read_on_mock:
  "fst (regRead (mock_device 10 mock_zero) sample_driver 0x02
         (snd (regWrite_spec (mock_device 10 mock_zero) sample_driver 0x02 0x1234 (power_on (\<lambda>p. HIGH)))))
     = 0x1234"
  by (simp add: regRead_def regWrite_spec_def SPI_transfer_def Let_def delayMicroseconds_def
      sample_driver_def power_on_def mock_device_def mock_zero_def mock_reply_def mock_commit_def)

text \<open>
  Claim C8: for every register address, a register read is two chip-select pulses. The
  first sends the address and a fill byte; 15 microseconds pass; the second sends two
  fill bytes and receives the most significant byte and then the least significant byte;
  another 15 microseconds pass. Every byte received is the byte the device shifts out at
  that point of the history. The value returned is \<^verbatim>\<open>(msb << 8) | (lsb & 0xFF)\<close>,
  the 16-bit word whose high byte is the first byte the device shifted out in the second
  pulse and whose low byte is the second.
\<close>

theorem regRead_transactions:
  "let cs = CS this;
       h1 = bus s @ [DigitalWrite cs LOW];
       r1 = dev h1 regAddr;
       h2 = h1 @ [Transfer regAddr r1];
       r2 = dev h2 0x00;
       h3 = h2 @ [Transfer 0x00 r2, DigitalWrite cs HIGH, DelayMicroseconds 15, DigitalWrite cs LOW];
       msb = dev h3 0x00;
       h4 = h3 @ [Transfer 0x00 msb];
       lsb = dev h4 0x00
   in bus (snd (regRead dev this regAddr s)) =
        bus s @ [DigitalWrite cs LOW, Transfer regAddr r1, Transfer 0x00 r2,
                 DigitalWrite cs HIGH,
                 DelayMicroseconds 15,
                 DigitalWrite cs LOW, Transfer 0x00 msb, Transfer 0x00 lsb,
                 DigitalWrite cs HIGH,
                 DelayMicroseconds 15] \<and>
      fst (regRead dev this regAddr s) = push_bit 8 (ucast msb) OR (ucast lsb AND 0xFF) \<and>
      ucast (drop_bit 8 (fst (regRead dev this regAddr s))) = msb \<and>
      ucast (fst (regRead dev this regAddr s)) = lsb"
proof -
  define h1 where "h1 = bus s @ [DigitalWrite (CS this) LOW]"
  define r1 where "r1 = dev h1 regAddr"
  define h2 where "h2 = h1 @ [Transfer regAddr r1]"
  define r2 where "r2 = dev h2 0x00"
  define h3 where "h3 = h2 @ [Transfer 0x00 r2, DigitalWrite (CS this) HIGH, DelayMicroseconds 15,
                              DigitalWrite (CS this) LOW]"
  define msb where "msb = dev h3 0x00"
  define h4 where "h4 = h3 @ [Transfer 0x00 msb]"
  define lsb where "lsb = dev h4 0x00"
  note defs = h1_def r1_def h2_def r2_def h3_def msb_def h4_def lsb_def
  have b: "bus (snd (regRead dev this regAddr s)) =
        bus s @ [DigitalWrite (CS this) LOW, Transfer regAddr r1, Transfer 0x00 r2,
                 DigitalWrite (CS this) HIGH,
                 DelayMicroseconds 15,
                 DigitalWrite (CS this) LOW, Transfer 0x00 msb, Transfer 0x00 lsb,
                 DigitalWrite (CS this) HIGH,
                 DelayMicroseconds 15]"
    by (simp add: regRead_def SPI_transfer_def Let_def delayMicroseconds_def split_def defs)
  have v: "fst (regRead dev this regAddr s) = push_bit 8 (ucast msb) OR (ucast lsb AND 0xFF)"
    by (simp add: regRead_def SPI_transfer_def Let_def delayMicroseconds_def split_def defs)
  from v have hi: "ucast (drop_bit 8 (fst (regRead dev this regAddr s))) = msb"
    and lo: "ucast (fst (regRead dev this regAddr s)) = lsb"
    by (simp_all only: concat_high_byte concat_low_byte)
  from b v hi lo show ?thesis
    unfolding Let_def defs by blast
qed

text \<open>On the device that answers every transfer with \<^verbatim>\<open>0xA5\<close> the read returns \<^verbatim>\<open>0xA5A5\<close>.\<close>

lemma regRead_on_sample_device:
  "fst (regRead sample_device sample_driver 0x02 (power_on (\<lambda>p. HIGH))) = 0xA5A5"
  by (simp add: regRead_def SPI_transfer_def Let_def delayMicroseconds_def sample_device_def)

section \<open>Hardware reset\<close>

text \<open>
  Claim C9: for every settle delay \<open>ms\<close>, the hardware reset drives the reset line low,
  waits 100 milliseconds, drives the line high, waits \<open>ms\<close> milliseconds and returns 1;
  the reset line is high when it returns.
\<close>

theorem resetDUT_pulse:
  "fst (resetDUT this ms s) = 1 \<and>
   bus (snd (resetDUT this ms s)) =
     bus s @ [DigitalWrite (RST this) LOW, Delay 100, DigitalWrite (RST this) HIGH, Delay (unat ms)] \<and>
   pins (snd (resetDUT this ms s)) (RST this) = HIGH"
  by (simp add: resetDUT_def Let_def delay_def)

section \<open>The data-ready output\<close>

text \<open>
  Claim C4 says that for a selector other than 1 and 2 the function issues no register
  write. For selector 3 the access log holds a register write: the page select, which
  the function issues before it looks at the selector.
\<close>

theorem setDataReady_invalid_selector_counterexample:
  "filter is_write
     (accesses (snd (setDataReady sample_device sample_driver sample_regmap 3 (power_on (\<lambda>p. HIGH)))))
   \<noteq> []"
  by (simp add: setDataReady_def split_def Let_def power_on_def)

text \<open>
  Claim C4, amended: configuring the data-ready output first writes 0 to the page
  register. For selector 1 it then writes \<^verbatim>\<open>0x08\<close> to the GPIO control register and
  returns 1; for selector 2 it then writes \<^verbatim>\<open>0x20\<close> there and returns 2; for every
  other selector it returns 0 and issues no register write other than the page select.
\<close>

theorem setDataReady_cases:
  "fst (setDataReady dev this R dio s) = Inr (if dio = 1 then 1 else if dio = 2 then 2 else 0) \<and>
   accesses (snd (setDataReady dev this R dio s)) =
     accesses s @ RegWrite (PAGE_ID R) 0x00 #
       (if dio = 1 then [RegWrite (GPO_CTRL R) 0x08]
        else if dio = 2 then [RegWrite (GPO_CTRL R) 0x20]
        else [])"
  by (simp add: setDataReady_def split_def Let_def)

theorem setDataReady_cases_witness:
  "fst (setDataReady sample_device sample_driver sample_regmap 3 (power_on (\<lambda>p. HIGH))) = Inr 0 \<and>
   accesses (snd (setDataReady sample_device sample_driver sample_regmap 3 (power_on (\<lambda>p. HIGH)))) =
     [RegWrite 0x00 0x00]"
  using setDataReady_cases [of sample_device sample_driver sample_regmap 3 "power_on (\<lambda>p. HIGH)"]
  by (simp add: sample_regmap_def power_on_def)

section \<open>Reading samples\<close>

text \<open>
  Claim C6 says that reading one FFT sample issues exactly three register writes and two
  register reads. For sample 5 of sensor 1 the access log holds two register writes, not
  three.
\<close>

theorem readFFT_three_writes_counterexample:
  "length (filter is_write
     (accesses (snd (readFFT sample_device sample_driver sample_regmap 5 1 (power_on (\<lambda>p. HIGH))))))
   \<noteq> 3"
  by (simp add: readFFT_def split_def Let_def store_def power_on_def)

text \<open>
  Claim C6, amended: for every sample index and sensor address, reading one FFT sample
  issues exactly two register writes, the sensor address to the page register and the
  sample index to the buffer pointer, and then two register reads, of the X buffer and of
  the Y buffer, in that order.
\<close>

theorem readFFT_accesses:
  "accesses (snd (readFFT dev this R sample sensorAddr s)) =
     accesses s @ [RegWrite (PAGE_ID R) (ucast sensorAddr), RegWrite (BUF_PNTR R) (ucast sample),
                   RegRead (X_BUF R), RegRead (Y_BUF R)]"
  by (simp add: readFFT_def split_def Let_def store_def)

text \<open>
  The two values read are assigned to \<^verbatim>\<open>buffer[1]\<close> and \<^verbatim>\<open>buffer[2]\<close> of an array of
  two cells; the second store is outside the array.
\<close>

lemma readFFT_store_out_of_bounds:
  "fst (readFFT dev this R sample sensorAddr s) = Inl OutOfBounds"
  by (simp add: readFFT_def split_def Let_def store_def)

text \<open>
  The loop of \<^verbatim>\<open>readFFTBuffer\<close> stores the Y sample at index \<open>i + 256\<close> and runs while
  \<open>i < 511\<close>. From any index up to 256 and with the array of 512 cells it reaches
  \<open>i = 256\<close>, where the store goes to index 512.
\<close>

lemma readFFTBuffer_loop_overruns:
  "length buffer = 512 \<Longrightarrow> i \<le> 256 \<Longrightarrow>
   fst (readFFTBuffer_loop dev this R i buffer s) = Inl OutOfBounds"
proof (induction "256 - i" arbitrary: i buffer s)
  case 0
  then have "i = 256" by simp
  with 0 show ?case
    by (subst readFFTBuffer_loop.simps) (simp add: split_def store_def)
next
  case (Suc n)
  then have lt: "i < 256" and n: "n = 256 - Suc i" and le: "Suc i \<le> 256" by simp_all
  have step: "fst (readFFTBuffer_loop dev this R (Suc i) b t) = Inl OutOfBounds"
    if "length b = 512" for b t
    using Suc.hyps(1) [OF n that le] .
  from Suc.prems lt show ?case
    by (subst readFFTBuffer_loop.simps) (simp add: split_def store_def step)
qed

text \<open>
  Before the loop the function issues its four register writes: page select, buffer
  pointer 0, start of acquisition, send to sensor.
\<close>

lemma readFFTBuffer_loop_accesses:
  "\<exists>l. accesses (snd (readFFTBuffer_loop dev this R i buffer s)) = accesses s @ l"
proof (induction "511 - i" arbitrary: i buffer s)
  case 0
  then show ?case
    by (subst readFFTBuffer_loop.simps) simp
next
  case (Suc n)
  then have lt: "i < 511" and n: "n = 511 - Suc i" by simp_all
  have step: "\<exists>l. accesses (snd (readFFTBuffer_loop dev this R (Suc i) b t)) = accesses t @ l" for b t
    using Suc.hyps(1) [OF n] .
  show ?case
  proof (cases "i + 256 < length buffer")
    case True
    then have i: "i < length buffer" by simp
    let ?s1 = "snd (regRead dev this (X_BUF R) s)"
    let ?s2 = "snd (regRead dev this (Y_BUF R) ?s1)"
    let ?b = "buffer[i := Some (fst (regRead dev this (X_BUF R) s)),
                     i + 256 := Some (fst (regRead dev this (Y_BUF R) ?s1))]"
    obtain l where "accesses (snd (readFFTBuffer_loop dev this R (Suc i) ?b ?s2)) = accesses ?s2 @ l"
      using step by blast
    with lt True i show ?thesis
      by (subst readFFTBuffer_loop.simps) (simp add: split_def store_def)
  next
    case False
    with lt show ?thesis
      by (subst readFFTBuffer_loop.simps) (simp add: split_def store_def)
  qed
qed

lemma readFFTBuffer_commands:
  "\<exists>l. accesses (snd (readFFTBuffer dev this R sensorAddr s)) =
     accesses s @ [RegWrite (PAGE_ID R) (ucast sensorAddr), RegWrite (BUF_PNTR R) 0x00,
                   RegWrite (GLOB_CMD_S R) 0x800, RegWrite (GLOB_CMD_G R) 0x2] @ l"
proof -
  let ?s4 = "snd (regWrite dev this (GLOB_CMD_G R) 0x2
              (snd (regWrite dev this (GLOB_CMD_S R) 0x800
                (snd (regWrite dev this (BUF_PNTR R) 0x00
                  (snd (regWrite dev this (PAGE_ID R) (ucast sensorAddr) s)))))))"
  obtain l where
    "accesses (snd (readFFTBuffer_loop dev this R 0 (replicate 512 None) ?s4)) = accesses ?s4 @ l"
    using readFFTBuffer_loop_accesses by blast
  then show ?thesis
    by (simp add: readFFTBuffer_def split_def Let_def)
qed

text \<open>
  Claim C7 says that reading the FFT buffer fills a buffer of 512 entries, X samples in
  the first half and Y samples from offset 256, every write within the bounds of the
  buffer, and returns the filled buffer. For every sensor address the function instead
  stores outside the buffer: it never returns a filled buffer.
\<close>

theorem readFFTBuffer_overruns:
  "fst (readFFTBuffer dev this R sensorAddr s) = Inl OutOfBounds"
  by (simp add: readFFTBuffer_def split_def Let_def readFFTBuffer_loop_overruns)

section \<open>Scaling\<close>

lemma int_of_double_fraction: "0 \<le> q \<Longrightarrow> q < 1 \<Longrightarrow> int_of_double q = 0"
proof -
  assume "0 \<le> q" and "q < 1"
  then have "\<lfloor>q\<rfloor> = 0" by (simp add: floor_eq_iff)
  with \<open>0 \<le> q\<close> show ?thesis by (simp add: int_of_double_def)
qed

text \<open>
  Claim C3 says that the time and FFT scalings return the sign-adjusted sample multiplied
  by the constant of the range. The constant is assigned to an \<^verbatim>\<open>int\<close>, where it
  becomes 0: both functions return 0 for every sample and every range selector.
\<close>

theorem scale_returns_zero:
  "scaleTime sensorData gRange = 0 \<and> scaleFFT sensorData gRange = 0"
  by (simp add: scaleTime_def scaleFFT_def int_of_double_fraction)

text \<open>
  Claim C5 says that a sample with the top bit set gives a negative output in every
  scaling function. For the sample \<^verbatim>\<open>0x8000\<close> the sign adjustment subtracts
  \<^verbatim>\<open>0xFFFF\<close> and gives -32767, but the time and FFT scalings return 0, which is not
  negative.
\<close>

theorem scale_top_bit_not_negative:
  "signedData 0x8000 = 0x8000 - 0xFFFF \<and> sint (signedData 0x8000) = - 32767 \<and>
   scaleTime 0x8000 1 = 0 \<and> scaleFFT 0x8000 1 = 0 \<and>
   \<not> scaleTime 0x8000 1 < 0 \<and> \<not> scaleFFT 0x8000 1 < 0"
  by (simp add: scaleTime_def scaleFFT_def int_of_double_fraction signedData_def)

text \<open>With 16-bit arithmetic the sign adjustment of \<^verbatim>\<open>0xFFFF\<close> is 0.\<close>

lemma signedData_all_ones: "signedData 0xFFFF = 0"
  by (simp add: signedData_def)

section \<open>Chip-select between operations\<close>

text \<open>
  Claim C10: after the constructor and after any sequence of operations the chip-select
  pin is high. Where chip-select and reset are different pins, chip-select was low on the
  whole history of the board only around single transactions: every low is followed by
  the two byte transfers of one frame and then the high, with nothing else in between,
  and no transfer happens while chip-select is high.
\<close>

theorem chip_select_idle_between_operations:
  "pins (snd (run dev \<lparr>CS = cs, RST = rst\<rparr> R ops (snd (ADIS16000_new cs rst (power_on p))))) cs = HIGH \<and>
   (cs \<noteq> rst \<longrightarrow>
    cs_phase_after cs
      (bus (snd (run dev \<lparr>CS = cs, RST = rst\<rparr> R ops (snd (ADIS16000_new cs rst (power_on p)))))) = Idle)"
proof -
  have "cs_idle (CS \<lparr>CS = cs, RST = rst\<rparr> \<noteq> RST \<lparr>CS = cs, RST = rst\<rparr>) (CS \<lparr>CS = cs, RST = rst\<rparr>)
          (snd (ADIS16000_new cs rst (power_on p)))"
    by (simp add: constructor_idle)
  then have "cs_idle (CS \<lparr>CS = cs, RST = rst\<rparr> \<noteq> RST \<lparr>CS = cs, RST = rst\<rparr>) (CS \<lparr>CS = cs, RST = rst\<rparr>)
          (snd (run dev \<lparr>CS = cs, RST = rst\<rparr> R ops (snd (ADIS16000_new cs rst (power_on p)))))"
    by (rule run_idle)
  then show ?thesis by (simp add: cs_idle_def)
qed

theorem chip_select_idle_between_operations_witness:
  "(10 :: int) \<noteq> 9 \<and>
   pins (snd (run sample_device \<lparr>CS = 10, RST = 9\<rparr> sample_regmap
                [Op_regWrite 0x02 0x1234, Op_regRead 0x02, Op_resetDUT 50]
                (snd (ADIS16000_new 10 9 (power_on (\<lambda>p. LOW)))))) 10 = HIGH \<and>
   cs_phase_after 10
     (bus (snd (run sample_device \<lparr>CS = 10, RST = 9\<rparr> sample_regmap
                [Op_regWrite 0x02 0x1234, Op_regRead 0x02, Op_resetDUT 50]
                (snd (ADIS16000_new 10 9 (power_on (\<lambda>p. LOW))))))) = Idle"
proof -
  have h: "(10 :: int) \<noteq> 9" by simp
  from h chip_select_idle_between_operations
         [of sample_device 10 9 sample_regmap
             "[Op_regWrite 0x02 0x1234, Op_regRead 0x02, Op_resetDUT 50]" "\<lambda>p. LOW"]
  show ?thesis by blast
qed

end
